theory Spec2Isabelle
  imports Complex_Main "HOL-Library.Word" "HOL-Library.Multiset"
begin

section \<open>Planets module of the Stellarium Web Engine: ephemeris cache, shadows, photometry\<close>

text \<open>
  Shallow embedding of the position, eclipse, phase and shadow-candidate functions of
  \<^verbatim>\<open>src/modules/planets.c\<close>. C doubles are read as real numbers (exact arithmetic, no
  rounding, no infinities); the one explicit \<^verbatim>\<open>NAN\<close> the code returns is a constructor of
  its own. Planets live in a store indexed by address, because the code updates the cache
  fields of a planet and of its ancestors in place through \<^verbatim>\<open>const\<close> pointers.
\<close>

subsection \<open>Vectors and position-velocity pairs\<close>

type_synonym vec3 = "real \<times> real \<times> real"
type_synonym pv = "vec3 \<times> vec3"

text \<open>The vector helpers of \<^verbatim>\<open>vec.h\<close> and the pv helpers of ERFA, by their documented
  meaning (their sources are outside the files modelled here).\<close>

fun vec3_add :: "vec3 \<Rightarrow> vec3 \<Rightarrow> vec3" where
  "vec3_add (a0, a1, a2) (b0, b1, b2) = (a0 + b0, a1 + b1, a2 + b2)"

fun vec3_sub :: "vec3 \<Rightarrow> vec3 \<Rightarrow> vec3" where
  "vec3_sub (a0, a1, a2) (b0, b1, b2) = (a0 - b0, a1 - b1, a2 - b2)"

fun vec3_mul :: "real \<Rightarrow> vec3 \<Rightarrow> vec3" where
  "vec3_mul k (a0, a1, a2) = (k * a0, k * a1, k * a2)"

fun vec3_dot :: "vec3 \<Rightarrow> vec3 \<Rightarrow> real" where
  "vec3_dot (a0, a1, a2) (b0, b1, b2) = a0 * b0 + a1 * b1 + a2 * b2"

definition vec3_norm2 :: "vec3 \<Rightarrow> real" where
  "vec3_norm2 v = vec3_dot v v"

definition vec3_norm :: "vec3 \<Rightarrow> real" where
  "vec3_norm v = sqrt (vec3_norm2 v)"



definition eraZpv :: pv where
  "eraZpv = ((0, 0, 0), (0, 0, 0))"

definition eraPvu :: "real \<Rightarrow> pv \<Rightarrow> pv" where
  "eraPvu dt s = (vec3_add (fst s) (vec3_mul dt (snd s)), snd s)"

definition eraPvppv :: "pv \<Rightarrow> pv \<Rightarrow> pv" where
  "eraPvppv a b = (vec3_add (fst a) (fst b), vec3_add (snd a) (snd b))"

definition eraPvmpv :: "pv \<Rightarrow> pv \<Rightarrow> pv" where
  "eraPvmpv a b = (vec3_sub (fst a) (fst b), vec3_sub (snd a) (snd b))"

subsection \<open>Bodies, observers and the external models\<close>

record elements =
  el_mjd :: real
  el_in :: real
  el_om :: real
  el_w :: real
  el_a :: real
  el_n :: real
  el_ec :: real
  el_ma :: real

text \<open>\<^verbatim>\<open>struct planet\<close>: the fields the modelled functions read or write. \<open>parent\<close> is the
  address of the parent body, \<open>None\<close> for a \<^verbatim>\<open>NULL\<close> pointer.\<close>

record planet =
  planet_id :: int
  parent :: "nat option"
  radius_m :: real
  orbit :: elements
  update_delta_s :: real
  last_full_update :: real
  last_full_pvh :: pv
  pvo_obs_hash :: "64 word"
  pvo :: pv

type_synonym store = "nat \<Rightarrow> planet"

record observer =
  tt :: real
  hash :: "64 word"
  earth_pvh :: pv
  sun_pvb :: pv
  obs_pvb :: pv
  sun_pvo :: pv

text \<open>What the modelled functions call or use but the modelled files do not define: the
  orbital theories, the angular separation of ERFA and three unit constants. They are
  parameters of every function below.\<close>

record ext =
  eraPlan94 :: "real \<Rightarrow> int \<Rightarrow> pv"
  l12 :: "real \<Rightarrow> int \<Rightarrow> pv"
  orbit_compute_pv :: "real \<Rightarrow> elements \<Rightarrow> pv"
  moon_icrf_geocentric_pos :: "real \<Rightarrow> vec3"
  eraSepp :: "vec3 \<Rightarrow> vec3 \<Rightarrow> real"
  DAU :: real
  LIGHT_YEAR_IN_METER :: real
  DJY :: real

text \<open>Modelled from the spec: the refresh interval is \<^verbatim>\<open>update_delta_s\<close> seconds converted
  to days, so the macro \<^verbatim>\<open>ERFA_DAYSEC\<close> (defined outside the modelled files) is the number of
  seconds of a day.\<close>

definition ERFA_DAYSEC :: real where
  "ERFA_DAYSEC = 86400"

definition SUN :: int where "SUN = 10"
definition MERCURY :: int where "MERCURY = 199"
definition VENUS :: int where "VENUS = 299"
definition MOON :: int where "MOON = 301"
definition EARTH :: int where "EARTH = 399"
definition MARS :: int where "MARS = 499"
definition IO :: int where "IO = 501"
definition EUROPA :: int where "EUROPA = 502"
definition GANYMEDE :: int where "GANYMEDE = 503"
definition CALLISTO :: int where "CALLISTO = 504"
definition JUPITER :: int where "JUPITER = 599"
definition SATURN :: int where "SATURN = 699"
definition URANUS :: int where "URANUS = 799"
definition NEPTUNE :: int where "NEPTUNE = 899"

text \<open>How a call can fail to return a value: the recursion toward the root exceeds the
  call depth allowed (a cyclic parent chain never returns in C), a \<^verbatim>\<open>NULL\<close> parent is
  dereferenced, or the sphere array is read before its first entry.\<close>

datatype error = DepthExceeded | NullPointer | OutOfBounds

subsection \<open>Heliocentric position with its cache\<close>

text \<open>Lines 251-252: the write of the heliocentric cache.\<close>

definition cache_full_pvh :: "store \<Rightarrow> nat \<Rightarrow> pv \<Rightarrow> real \<Rightarrow> store" where
  "cache_full_pvh st p pvh t =
     st(p := (st p)\<lparr>last_full_pvh := pvh, last_full_update := t\<rparr>)"

text \<open>Lines 190-192: the test that the cached heliocentric state may be used.\<close>

definition cache_valid :: "planet \<Rightarrow> observer \<Rightarrow> bool" where
  "cache_valid planet obs \<longleftrightarrow>
     last_full_update planet \<noteq> 0 \<and>
     \<bar>tt obs - last_full_update planet\<bar> < update_delta_s planet / ERFA_DAYSEC"

text \<open>The case labels of the two groups of the \<^verbatim>\<open>switch\<close> that share a body.\<close>

definition major_planet :: "int \<Rightarrow> bool" where
  "major_planet i \<longleftrightarrow>
     i = MERCURY \<or> i = VENUS \<or> i = MARS \<or> i = JUPITER \<or> i = SATURN \<or> i = URANUS \<or>
     i = NEPTUNE"

definition galilean_moon :: "int \<Rightarrow> bool" where
  "galilean_moon i \<longleftrightarrow> i = IO \<or> i = EUROPA \<or> i = GANYMEDE \<or> i = CALLISTO"

text \<open>Lines 229-230 and 245-246: the state relative to the parent plus the parent's.\<close>

definition add_parent :: "pv \<Rightarrow> pv \<Rightarrow> pv" where
  "add_parent own parent_pvh =
     (vec3_add (fst own) (fst parent_pvh), vec3_add (snd own) (snd parent_pvh))"

text \<open>\<^verbatim>\<open>planet_get_pvh\<close>. The first argument after the external models bounds the depth of
  the recursion through \<open>parent\<close>; the result is the pv written to \<^verbatim>\<open>pvh\<close> and the store
  after the call.\<close>

fun planet_get_pvh ::
  "ext \<Rightarrow> nat \<Rightarrow> store \<Rightarrow> nat \<Rightarrow> observer \<Rightarrow> error + (pv \<times> store)" where
  "planet_get_pvh X 0 st p obs = Inl DepthExceeded"
| "planet_get_pvh X (Suc k) st p obs =
    (if cache_valid (st p) obs
     then Inr (eraPvu (tt obs - last_full_update (st p)) (last_full_pvh (st p)), st)
     else if planet_id (st p) = EARTH then Inr (earth_pvh obs, st)
     else if planet_id (st p) = SUN then Inr (eraZpv, st)
     else if planet_id (st p) = MOON then
       Inr (eraPvppv
              (moon_icrf_geocentric_pos X (tt obs),
               vec3_sub (moon_icrf_geocentric_pos X (tt obs + 1))
                        (moon_icrf_geocentric_pos X (tt obs)))
              (earth_pvh obs), st)
     else if major_planet (planet_id (st p)) then
       (let pvh = eraPlan94 X (tt obs) ((planet_id (st p) - MERCURY) div 100 + 1)
        in Inr (pvh, cache_full_pvh st p pvh (tt obs)))
     else if galilean_moon (planet_id (st p)) then
       (case parent (st p) of
          None \<Rightarrow> Inl NullPointer
        | Some q \<Rightarrow>
           (case planet_get_pvh X k st q obs of
              Inl e \<Rightarrow> Inl e
            | Inr (parent_pvh, st') \<Rightarrow>
               (let pvh = add_parent (l12 X (tt obs) (planet_id (st p) - IO + 1)) parent_pvh
                in Inr (pvh, cache_full_pvh st' p pvh (tt obs)))))
     else
       (case parent (st p) of
          None \<Rightarrow> Inl NullPointer
        | Some q \<Rightarrow>
           (case planet_get_pvh X k st q obs of
              Inl e \<Rightarrow> Inl e
            | Inr (parent_pvh, st') \<Rightarrow>
               (let pvh = add_parent (orbit_compute_pv X (tt obs) (orbit (st p))) parent_pvh
                in Inr (pvh, cache_full_pvh st' p pvh (tt obs))))))"

subsection \<open>Observer-relative position with its cache\<close>

text \<open>Lines 277-279 and 287-289: heliocentric to observer-centred.\<close>

definition to_observer :: "observer \<Rightarrow> pv \<Rightarrow> pv" where
  "to_observer obs pvh = eraPvmpv (eraPvppv pvh (sun_pvb obs)) (obs_pvb obs)"

text \<open>Line 283: the light travel time, in days, over the distance of a position in AU.\<close>

definition light_time :: "ext \<Rightarrow> vec3 \<Rightarrow> real" where
  "light_time X pos = vec3_norm pos * DAU X / LIGHT_YEAR_IN_METER X * DJY X"

text \<open>Lines 292-293: the write of the observer-relative cache.\<close>

definition cache_pvo :: "store \<Rightarrow> nat \<Rightarrow> 64 word \<Rightarrow> pv \<Rightarrow> store" where
  "cache_pvo st p h v = st(p := (st p)\<lparr>pvo_obs_hash := h, pvo := v\<rparr>)"

definition planet_get_pvo ::
  "ext \<Rightarrow> nat \<Rightarrow> store \<Rightarrow> nat \<Rightarrow> observer \<Rightarrow> bool \<Rightarrow> error + (pv \<times> store)" where
  "planet_get_pvo X k st p obs adjust_light_speed =
    (if adjust_light_speed \<and> hash obs = pvo_obs_hash (st p)
     then Inr (pvo (st p), st)
     else
       (case planet_get_pvh X k st p obs of
          Inl e \<Rightarrow> Inl e
        | Inr (pvh, st1) \<Rightarrow>
           (let pvo1 = to_observer obs pvh in
            if \<not> adjust_light_speed then Inr (pvo1, st1)
            else
              (let ldt = light_time X (fst pvo1);
                   obs2 = obs\<lparr>tt := tt obs - ldt\<rparr>
               in case planet_get_pvh X k st1 p obs2 of
                    Inl e \<Rightarrow> Inl e
                  | Inr (pvh2, st2) \<Rightarrow>
                     (let pvo2 = to_observer obs pvh2
                      in Inr (pvo2, cache_pvo st2 p (hash obs) pvo2))))))"

subsection \<open>Eclipse factor of the Sun\<close>

text \<open>Lines 330-341, the body of the loop once the three angles are known: \<open>sun_r\<close> the
  angular radius of the Sun, \<open>sph_r\<close> of the blocking body, \<open>sep\<close> their separation.\<close>

definition shadow_factor :: "real \<Rightarrow> real \<Rightarrow> real \<Rightarrow> real" where
  "shadow_factor sun_r sph_r sep =
    (if sep \<ge> sun_r + sph_r then 1
     else if sep \<le> sph_r - sun_r then 0
     else if sep \<le> sun_r - sph_r then 1 - sph_r * sph_r / (sun_r * sun_r)
     else
       (let x = (sun_r * sun_r + sep * sep - sph_r * sph_r) / (2 * sep);
            alpha = arccos (x / sun_r);
            beta = arccos ((sep - x) / sph_r);
            AR = sun_r * sun_r * (alpha - 0.5 * sin (2 * alpha));
            Ar = sph_r * sph_r * (beta - 0.5 * sin (2 * beta));
            AS = sun_r * sun_r * 2 * 1.57079633
        in 1 - (AR + Ar) / AS))"



subsection \<open>Phase and magnitude of the Sun\<close>

datatype double = NaN | Fin real

definition planet_get_phase ::
  "ext \<Rightarrow> nat \<Rightarrow> store \<Rightarrow> nat \<Rightarrow> observer \<Rightarrow> error + (double \<times> store)" where
  "planet_get_phase X k st p obs =
    (if planet_id (st p) = EARTH \<or> planet_id (st p) = SUN then Inr (NaN, st)
     else
       (case planet_get_pvh X k st p obs of
          Inl e \<Rightarrow> Inl e
        | Inr (pvh, st1) \<Rightarrow>
           (case planet_get_pvo X k st1 p obs True of
              Inl e \<Rightarrow> Inl e
            | Inr (pvo', st2) \<Rightarrow>
               (let i = eraSepp X (fst pvh) (fst pvo')
                in Inr (Fin (0.5 * cos i + 0.5), st2)))))"


subsection \<open>Shadow candidates\<close>






subsection \<open>The geometry the eclipse factor is specified by\<close>

text \<open>The area common to two disks of radii \<open>R\<close> and \<open>r\<close> whose centres are \<open>d\<close> apart,
  by the standard two-circle intersection formula, and the area of a disk. These two
  follow the specification (the lens-shaped overlap and the source disk area), not the
  code; the theorems below compare the code with them.\<close>

definition circle_overlap_area :: "real \<Rightarrow> real \<Rightarrow> real \<Rightarrow> real" where
  "circle_overlap_area R r d =
     r\<^sup>2 * arccos ((d\<^sup>2 + r\<^sup>2 - R\<^sup>2) / (2 * d * r)) +
     R\<^sup>2 * arccos ((d\<^sup>2 + R\<^sup>2 - r\<^sup>2) / (2 * d * R)) -
     sqrt ((- d + r + R) * (d + r - R) * (d - r + R) * (d + r + R)) / 2"

definition disk_area :: "real \<Rightarrow> real" where
  "disk_area R = pi * R\<^sup>2"

subsection \<open>The tree invariant\<close>

text \<open>Through at most \<open>k - 1\<close> parents, none of them \<^verbatim>\<open>NULL\<close>, the body \<open>p\<close> reaches a body
  whose state \<^verbatim>\<open>planet_get_pvh\<close> computes without its parent. This is the invariant of the
  specification (every body hangs under the Sun in an acyclic tree), for the depth \<open>k\<close>
  the recursion is given.\<close>

fun chain_ok :: "store \<Rightarrow> nat \<Rightarrow> nat \<Rightarrow> bool" where
  "chain_ok st 0 p \<longleftrightarrow> False"
| "chain_ok st (Suc k) p \<longleftrightarrow>
     planet_id (st p) = EARTH \<or> planet_id (st p) = SUN \<or> planet_id (st p) = MOON \<or>
     major_planet (planet_id (st p)) \<or>
     (case parent (st p) of None \<Rightarrow> False | Some q \<Rightarrow> chain_ok st k q)"

text \<open>Two stores that hold the same bodies and differ at most in the cache fields.\<close>

definition same_bodies :: "store \<Rightarrow> store \<Rightarrow> bool" where
  "same_bodies st st' \<longleftrightarrow>
     (\<forall>q. planet_id (st' q) = planet_id (st q) \<and> parent (st' q) = parent (st q) \<and>
          radius_m (st' q) = radius_m (st q) \<and> orbit (st' q) = orbit (st q) \<and>
          update_delta_s (st' q) = update_delta_s (st q))"

subsection \<open>Sample bodies\<close>

text \<open>A small system on which the functions are run: the Sun, the Earth, the Moon, Mars,
  Jupiter with Io, Europa and two small moons of equal radius, with orbital theories that
  place every body on the x axis, and an observer at the Earth.\<close>

definition no_orbit :: elements where
  "no_orbit = \<lparr>el_mjd = 0, el_in = 0, el_om = 0, el_w = 0, el_a = 0, el_n = 0, el_ec = 0,
     el_ma = 0\<rparr>"

definition body :: "int \<Rightarrow> nat option \<Rightarrow> real \<Rightarrow> real \<Rightarrow> planet" where
  "body i par r a =
     \<lparr>planet_id = i, parent = par, radius_m = r, orbit = no_orbit\<lparr>el_a := a\<rparr>,
      update_delta_s = 1, last_full_update = 0, last_full_pvh = eraZpv,
      pvo_obs_hash = 0, pvo = eraZpv\<rparr>"

definition sample_ext :: ext where
  "sample_ext =
     \<lparr>eraPlan94 = (\<lambda>t n. ((of_int n, 0, 0), (0, 0, 0))),
      l12 = (\<lambda>t n. ((- of_int n / 1000, 0, 0), (0, 0, 0))),
      orbit_compute_pv = (\<lambda>t e. ((el_a e, 0, 0), (0, 0, 0))),
      moon_icrf_geocentric_pos = (\<lambda>t. (0, 1 / 400, 0)),
      eraSepp = (\<lambda>a b. arccos (vec3_dot a b / (vec3_norm a * vec3_norm b))),
      DAU = 149597870700,
      LIGHT_YEAR_IN_METER = 9460730472580800,
      DJY = 365.25\<rparr>"

definition sample_store :: store where
  "sample_store =
     (\<lambda>_. body SUN None 695508000 0)
       (9 := body EARTH (Some 0) 6371000 0,
        2 := body MOON (Some 9) 1737400 0,
        3 := body MARS (Some 0) 3389500 0,
        4 := body JUPITER (Some 0) 69911000 0,
        5 := body IO (Some 4) 1821600 0,
        6 := body EUROPA (Some 4) 1560800 0,
        7 := body 505 (Some 4) 85000 (- 1 / 500),
        8 := body 506 (Some 4) 85000 (- 1 / 400))"

definition sample_obs :: observer where
  "sample_obs =
     \<lparr>tt = 58000, hash = 1, earth_pvh = ((1, 0, 0), (0, 0, 0)),
      sun_pvb = ((0, 0, 0), (0, 0, 0)), obs_pvb = ((1, 0, 0), (0, 0, 0)),
      sun_pvo = ((- 1, 0, 0), (0, 0, 0))\<rparr>"

section \<open>Basic facts\<close>

lemmas body_ids = SUN_def MERCURY_def VENUS_def MOON_def EARTH_def MARS_def IO_def
  EUROPA_def GANYMEDE_def CALLISTO_def JUPITER_def SATURN_def URANUS_def NEPTUNE_def

lemma sample_store_at:
  "sample_store 0 = body SUN None 695508000 0"
  "sample_store 9 = body EARTH (Some 0) 6371000 0"
  "sample_store 2 = body MOON (Some 9) 1737400 0"
  "sample_store 3 = body MARS (Some 0) 3389500 0"
  "sample_store 4 = body JUPITER (Some 0) 69911000 0"
  "sample_store 5 = body IO (Some 4) 1821600 0"
  "sample_store 6 = body EUROPA (Some 4) 1560800 0"
  "sample_store 7 = body 505 (Some 4) 85000 (- 1 / 500)"
  "sample_store 8 = body 506 (Some 4) 85000 (- 1 / 400)"
  by (simp_all add: sample_store_def)

lemma cache_full_pvh_apply:
  "cache_full_pvh st p x t q =
     (if q = p then (st p)\<lparr>last_full_pvh := x, last_full_update := t\<rparr> else st q)"
  by (simp add: cache_full_pvh_def)

lemma cache_pvo_apply:
  "cache_pvo st p h v q = (if q = p then (st p)\<lparr>pvo_obs_hash := h, pvo := v\<rparr> else st q)"
  by (simp add: cache_pvo_def)

lemmas sample_defs = sample_store_at cache_full_pvh_apply cache_pvo_apply
  sample_obs_def sample_ext_def body_def no_orbit_def
  body_ids major_planet_def galilean_moon_def cache_valid_def ERFA_DAYSEC_def
  eraZpv_def eraPvu_def eraPvppv_def eraPvmpv_def
  add_parent_def to_observer_def light_time_def Let_def

lemma vec3_norm_x [simp]: "vec3_norm (x, 0, 0) = \<bar>x\<bar>"
  by (simp add: vec3_norm_def vec3_norm2_def)

lemma vec3_norm_y [simp]: "vec3_norm (0, y, 0) = \<bar>y\<bar>"
  by (simp add: vec3_norm_def vec3_norm2_def)




lemma chain_ok_same_bodies:
  "same_bodies st st' \<Longrightarrow> chain_ok st' k p = chain_ok st k p"
  by (induction k arbitrary: p) (simp_all add: same_bodies_def split: option.splits)


section \<open>Bounds on pi\<close>

text \<open>From Machin's formula and the alternating series of the arc tangent.\<close>

lemma arctan_series_decreasing:
  fixes x :: real
  assumes "0 \<le> x" "x \<le> 1"
  shows "1 / real (Suc n * 2 + 1) * x ^ (Suc n * 2 + 1) \<le> 1 / real (n * 2 + 1) * x ^ (n * 2 + 1)"
proof -
  have "x ^ (Suc n * 2 + 1) \<le> x ^ (n * 2 + 1)"
    using assms by (intro power_decreasing) auto
  moreover have "1 / real (Suc n * 2 + 1) \<le> 1 / real (n * 2 + 1)"
    by (simp add: field_simps)
  moreover have "0 \<le> x ^ (Suc n * 2 + 1)" using assms by simp
  ultimately show ?thesis
    by (intro mult_mono) auto
qed

lemma arctan_upper_bound:
  fixes x :: real
  assumes "0 \<le> x" "x \<le> 1"
  shows "arctan x \<le> (\<Sum>i<2 * n + 1. (- 1) ^ i * (1 / real (i * 2 + 1) * x ^ (i * 2 + 1)))"
proof -
  have z: "(\<lambda>n. 1 / real (n * 2 + 1) * x ^ (n * 2 + 1)) \<longlonglongrightarrow> 0"
    using assms by (intro zeroseq_arctan_series) auto
  have p: "\<And>n. 0 \<le> 1 / real (n * 2 + 1) * x ^ (n * 2 + 1)"
    using assms by simp
  have "arctan x = (\<Sum>k. (- 1) ^ k * (1 / real (k * 2 + 1) * x ^ (k * 2 + 1)))"
    using assms by (intro arctan_series) auto
  then show ?thesis
    using summable_Leibniz'(4)[OF z p arctan_series_decreasing[OF assms]] by simp
qed

lemma arctan_lower_bound:
  fixes x :: real
  assumes "0 \<le> x" "x \<le> 1"
  shows "(\<Sum>i<2 * n. (- 1) ^ i * (1 / real (i * 2 + 1) * x ^ (i * 2 + 1))) \<le> arctan x"
proof -
  have z: "(\<lambda>n. 1 / real (n * 2 + 1) * x ^ (n * 2 + 1)) \<longlonglongrightarrow> 0"
    using assms by (intro zeroseq_arctan_series) auto
  have p: "\<And>n. 0 \<le> 1 / real (n * 2 + 1) * x ^ (n * 2 + 1)"
    using assms by simp
  have "arctan x = (\<Sum>k. (- 1) ^ k * (1 / real (k * 2 + 1) * x ^ (k * 2 + 1)))"
    using assms by (intro arctan_series) auto
  then show ?thesis
    using summable_Leibniz'(2)[OF z p arctan_series_decreasing[OF assms]] by simp
qed

lemma pi_upper_bound: "pi < 3.14159266"
proof -
  have a: "arctan (1/5) \<le> (\<Sum>i<2 * 3 + 1. (- 1) ^ i * (1 / real (i * 2 + 1) * (1/5) ^ (i * 2 + 1)))"
    by (rule arctan_upper_bound) auto
  have b: "(\<Sum>i<2 * 1. (- 1) ^ i * (1 / real (i * 2 + 1) * (1/239) ^ (i * 2 + 1))) \<le> arctan (1/239)"
    by (rule arctan_lower_bound) auto
  have "pi = 16 * arctan (1/5) - 4 * arctan (1/239)"
    using machin by simp
  also have "\<dots> \<le> 16 * (\<Sum>i<2 * 3 + 1. (- 1) ^ i * (1 / real (i * 2 + 1) * (1/5) ^ (i * 2 + 1)))
       - 4 * (\<Sum>i<2 * 1. (- 1) ^ i * (1 / real (i * 2 + 1) * (1/239) ^ (i * 2 + 1)))"
    using a b by linarith
  also have "\<dots> < 3.14159266"
    by (simp add: eval_nat_numeral)
  finally show ?thesis .
qed


section \<open>The heliocentric cache\<close>

lemma cache_full_pvh_fields:
  "pvo_obs_hash (cache_full_pvh st p x t q) = pvo_obs_hash (st q)"
  "pvo (cache_full_pvh st p x t q) = pvo (st q)"
  "planet_id (cache_full_pvh st p x t q) = planet_id (st q)"
  "parent (cache_full_pvh st p x t q) = parent (st q)"
  "radius_m (cache_full_pvh st p x t q) = radius_m (st q)"
  "orbit (cache_full_pvh st p x t q) = orbit (st q)"
  "update_delta_s (cache_full_pvh st p x t q) = update_delta_s (st q)"
  by (simp_all add: cache_full_pvh_def)

lemma cache_full_pvh_self:
  "last_full_pvh (cache_full_pvh st p x t p) = x"
  "last_full_update (cache_full_pvh st p x t p) = t"
  by (simp_all add: cache_full_pvh_def)

text \<open>What a call that returns has done to the store.\<close>

lemma planet_get_pvh_Suc_result:
  assumes "planet_get_pvh X (Suc k) st p obs = Inr (r, st')"
  shows "st' = st \<or> st' = cache_full_pvh st p r (tt obs) \<or>
         (\<exists>q r0 st0. parent (st p) = Some q \<and> planet_get_pvh X k st q obs = Inr (r0, st0) \<and>
             st' = cache_full_pvh st0 p r (tt obs))"
  using assms
  by (auto simp: Let_def split: if_splits option.splits sum.splits)

lemma planet_get_pvh_frame:
  "planet_get_pvh X k st p obs = Inr (r, st') \<Longrightarrow>
     pvo_obs_hash (st' q) = pvo_obs_hash (st q) \<and> pvo (st' q) = pvo (st q) \<and>
     planet_id (st' q) = planet_id (st q) \<and> parent (st' q) = parent (st q) \<and>
     radius_m (st' q) = radius_m (st q) \<and> orbit (st' q) = orbit (st q) \<and>
     update_delta_s (st' q) = update_delta_s (st q)"
proof (induction k arbitrary: st p r st')
  case 0
  then show ?case by simp
next
  case (Suc k)
  from planet_get_pvh_Suc_result[OF Suc.prems]
  consider "st' = st" | "st' = cache_full_pvh st p r (tt obs)"
    | q r0 st0 where "planet_get_pvh X k st q obs = Inr (r0, st0)"
        "st' = cache_full_pvh st0 p r (tt obs)"
    by blast
  then show ?case
  proof cases
    case 1
    then show ?thesis by simp
  next
    case 2
    then show ?thesis by (simp add: cache_full_pvh_fields)
  next
    case 3
    from Suc.IH[OF 3(1)] 3(2) show ?thesis by (simp add: cache_full_pvh_fields)
  qed
qed

lemma planet_get_pvh_same_bodies:
  "planet_get_pvh X k st p obs = Inr (r, st') \<Longrightarrow> same_bodies st st'"
  using planet_get_pvh_frame[of X k st p obs r st'] by (simp add: same_bodies_def)

text \<open>Under the tree invariant the recursion returns.\<close>

lemma planet_get_pvh_not_error:
  "chain_ok st k p \<Longrightarrow> \<not> isl (planet_get_pvh X k st p obs)"
proof (induction k arbitrary: p)
  case 0
  then show ?case by simp
next
  case (Suc k)
  show ?case
  proof (cases "parent (st p)")
    case None
    then show ?thesis using Suc.prems by (auto simp: Let_def)
  next
    case (Some q)
    show ?thesis
    proof (cases "chain_ok st k q")
      case True
      from Suc.IH[OF True] obtain r0 st0 where "planet_get_pvh X k st q obs = Inr (r0, st0)"
        by (cases "planet_get_pvh X k st q obs") auto
      then show ?thesis using Some by (simp add: Let_def)
    next
      case False
      then show ?thesis using Suc.prems Some by (auto simp: Let_def)
    qed
  qed
qed

lemma planet_get_pvh_returns:
  assumes "chain_ok st k p"
  shows "\<exists>r st'. planet_get_pvh X k st p obs = Inr (r, st')"
  using planet_get_pvh_not_error[OF assms, of X obs]
  by (cases "planet_get_pvh X k st p obs") auto

text \<open>C4. When the cache epoch of a body is set (not zero) and the time asked for is less
  than \<open>update_delta_s / 86400\<close> days away from it, \<^verbatim>\<open>planet_get_pvh\<close> returns the cached
  position advanced by the cached velocity over the time difference, the cached velocity
  as it is, and leaves the store unchanged, whatever the orbital models are.\<close>

theorem planet_get_pvh_cache_hit:
  assumes "last_full_update (st p) \<noteq> 0"
    and "\<bar>tt obs - last_full_update (st p)\<bar> < update_delta_s (st p) / 86400"
  shows "planet_get_pvh X (Suc k) st p obs =
           Inr ((vec3_add (fst (last_full_pvh (st p)))
                   (vec3_mul (tt obs - last_full_update (st p)) (snd (last_full_pvh (st p)))),
                 snd (last_full_pvh (st p))), st)"
  using assms by (simp add: cache_valid_def ERFA_DAYSEC_def eraPvu_def)

lemma mars_miss:
  "planet_get_pvh sample_ext (Suc 0) sample_store 3 sample_obs =
     Inr (((4, 0, 0), (0, 0, 0)), cache_full_pvh sample_store 3 ((4, 0, 0), (0, 0, 0)) 58000)"
  by (simp add: sample_defs)

theorem planet_get_pvh_cache_hit_witness:
  "last_full_update (cache_full_pvh sample_store 3 ((4, 0, 0), (0, 1, 0)) 58000 3) \<noteq> 0 \<and>
   planet_get_pvh sample_ext (Suc 0) (cache_full_pvh sample_store 3 ((4, 0, 0), (0, 1, 0)) 58000)
       3 (sample_obs\<lparr>tt := 58000 + 1 / 172800\<rparr>) =
     Inr (((4, 1 / 172800, 0), (0, 1, 0)),
          cache_full_pvh sample_store 3 ((4, 0, 0), (0, 1, 0)) 58000)"
  using planet_get_pvh_cache_hit[of "cache_full_pvh sample_store 3 ((4, 0, 0), (0, 1, 0)) 58000" 3
      "sample_obs\<lparr>tt := 58000 + 1 / 172800\<rparr>" sample_ext 0]
  by (simp add: cache_full_pvh_apply sample_store_at sample_obs_def body_def)

text \<open>C5, as amended. On a query that misses the heliocentric cache, \<^verbatim>\<open>planet_get_pvh\<close>
  returns whenever the tree invariant holds; and when it returns, a body other than the
  Earth, the Sun and the Moon has the state returned stored in \<open>last_full_pvh\<close> and the time
  asked for in \<open>last_full_update\<close>, while for the Earth, the Sun and the Moon the store is
  left as it was.\<close>

theorem planet_get_pvh_miss_stores:
  assumes "\<not> (last_full_update (st p) \<noteq> 0 \<and>
              \<bar>tt obs - last_full_update (st p)\<bar> < update_delta_s (st p) / 86400)"
  shows "(chain_ok st k p \<longrightarrow> (\<exists>pvh st'. planet_get_pvh X k st p obs = Inr (pvh, st'))) \<and>
         (\<forall>pvh st'. planet_get_pvh X k st p obs = Inr (pvh, st') \<longrightarrow>
            (if planet_id (st p) = EARTH \<or> planet_id (st p) = SUN \<or> planet_id (st p) = MOON
             then st' = st
             else last_full_pvh (st' p) = pvh \<and> last_full_update (st' p) = tt obs))"
proof (intro conjI allI impI)
  assume "chain_ok st k p"
  then show "\<exists>pvh st'. planet_get_pvh X k st p obs = Inr (pvh, st')"
    by (rule planet_get_pvh_returns)
next
  fix pvh st'
  assume r: "planet_get_pvh X k st p obs = Inr (pvh, st')"
  show "if planet_id (st p) = EARTH \<or> planet_id (st p) = SUN \<or> planet_id (st p) = MOON
        then st' = st
        else last_full_pvh (st' p) = pvh \<and> last_full_update (st' p) = tt obs"
  proof (cases k)
    case 0
    then show ?thesis using r by simp
  next
    case (Suc j)
    have nv: "\<not> cache_valid (st p) obs"
      using assms by (simp add: cache_valid_def ERFA_DAYSEC_def)
    show ?thesis
      using r nv unfolding Suc
      by (auto simp: Let_def cache_full_pvh_self split: if_splits option.splits sum.splits)
  qed
qed

theorem planet_get_pvh_miss_counterexample:
  "\<not> cache_valid (sample_store 9) sample_obs \<and>
   planet_get_pvh sample_ext (Suc 0) sample_store 9 sample_obs
     = Inr (earth_pvh sample_obs, sample_store) \<and>
   last_full_update (sample_store 9) = 0 \<and> tt sample_obs = 58000 \<and>
   \<not> cache_valid (sample_store 0) sample_obs \<and>
   planet_get_pvh sample_ext (Suc 0) sample_store 0 sample_obs = Inr (eraZpv, sample_store) \<and>
   last_full_update (sample_store 0) = 0 \<and>
   \<not> cache_valid (sample_store 2) sample_obs \<and>
   planet_get_pvh sample_ext (Suc 0) sample_store 2 sample_obs
     = Inr (((1, 1 / 400, 0), (0, 0, 0)), sample_store) \<and>
   last_full_update (sample_store 2) = 0"
  by (simp add: sample_defs)

theorem planet_get_pvh_miss_stores_witness:
  "\<not> cache_valid (sample_store 5) sample_obs \<and>
   chain_ok sample_store (Suc (Suc 0)) 5 \<and>
   planet_get_pvh sample_ext (Suc (Suc 0)) sample_store 5 sample_obs =
     Inr (((4999 / 1000, 0, 0), (0, 0, 0)),
       cache_full_pvh (cache_full_pvh sample_store 4 ((5, 0, 0), (0, 0, 0)) 58000)
          5 ((4999 / 1000, 0, 0), (0, 0, 0)) 58000) \<and>
   last_full_pvh (cache_full_pvh (cache_full_pvh sample_store 4 ((5, 0, 0), (0, 0, 0)) 58000)
          5 ((4999 / 1000, 0, 0), (0, 0, 0)) 58000 5) = ((4999 / 1000, 0, 0), (0, 0, 0)) \<and>
   last_full_update (cache_full_pvh (cache_full_pvh sample_store 4 ((5, 0, 0), (0, 0, 0)) 58000)
          5 ((4999 / 1000, 0, 0), (0, 0, 0)) 58000 5) = tt sample_obs"
proof -
  have m: "\<not> (last_full_update (sample_store 5) \<noteq> 0 \<and>
              \<bar>tt sample_obs - last_full_update (sample_store 5)\<bar>
                < update_delta_s (sample_store 5) / 86400)"
    by (simp add: sample_defs)
  have c: "chain_ok sample_store (Suc (Suc 0)) 5"
    by (simp add: sample_defs)
  have r: "planet_get_pvh sample_ext (Suc (Suc 0)) sample_store 5 sample_obs =
     Inr (((4999 / 1000, 0, 0), (0, 0, 0)),
       cache_full_pvh (cache_full_pvh sample_store 4 ((5, 0, 0), (0, 0, 0)) 58000)
          5 ((4999 / 1000, 0, 0), (0, 0, 0)) 58000)"
    by (simp add: sample_defs)
  note t = planet_get_pvh_miss_stores[where st = sample_store and p = 5 and obs = sample_obs
      and k = "Suc (Suc 0)" and X = sample_ext, OF m]
  from t[THEN conjunct1, rule_format, OF c] t[THEN conjunct2, rule_format, OF r]
  show ?thesis
    using m c r
    by (simp add: sample_store_at body_def body_ids cache_valid_def ERFA_DAYSEC_def)
qed

section \<open>The observer-relative cache\<close>


text \<open>Under the tree invariant both evaluations of \<^verbatim>\<open>planet_get_pvo\<close> return.\<close>

lemma planet_get_pvh_twice_returns:
  assumes "chain_ok st k p"
  shows "\<exists>pvh1 st1 pvh2 st2.
           planet_get_pvh X k st p obs = Inr (pvh1, st1) \<and>
           planet_get_pvh X k st1 p (obs\<lparr>tt := tt obs - f pvh1\<rparr>) = Inr (pvh2, st2)"
proof -
  from planet_get_pvh_returns[OF assms] obtain pvh1 st1 where
    1: "planet_get_pvh X k st p obs = Inr (pvh1, st1)" by blast
  have "chain_ok st1 k p"
    using chain_ok_same_bodies[OF planet_get_pvh_same_bodies[OF 1]] assms by simp
  from planet_get_pvh_returns[OF this] obtain pvh2 st2 where
    "planet_get_pvh X k st1 p (obs\<lparr>tt := tt obs - f pvh1\<rparr>) = Inr (pvh2, st2)" by blast
  then show ?thesis using 1 by blast
qed

lemma planet_get_pvo_returns:
  assumes "chain_ok st k p"
  shows "\<exists>r st'. planet_get_pvo X k st p obs adj = Inr (r, st')"
proof -
  from planet_get_pvh_twice_returns[OF assms, of X obs
      "\<lambda>pvh1. light_time X (fst (to_observer obs pvh1))"]
  obtain pvh1 st1 pvh2 st2 where
    "planet_get_pvh X k st p obs = Inr (pvh1, st1)"
    "planet_get_pvh X k st1 p (obs\<lparr>tt := tt obs - light_time X (fst (to_observer obs pvh1))\<rparr>)
       = Inr (pvh2, st2)"
    by blast
  then show ?thesis by (simp add: planet_get_pvo_def Let_def del: split_paired_Ex)
qed

text \<open>C6. With light-time adjustment asked for and the observer hash different from the
  cached one: when the first evaluation of the heliocentric state, at \<open>tt obs\<close>, and the
  second, at \<open>tt obs - ldt\<close> in the store the first one left, return, \<^verbatim>\<open>planet_get_pvo\<close>
  returns the state of the second evaluation plus the Sun's barycentric state minus the
  observer's, and stores it with the observer hash; \<open>ldt\<close> is the light time over the norm
  of the first, uncorrected observer-relative position. No third evaluation is made.
  Under the tree invariant both evaluations return.\<close>

theorem planet_get_pvo_single_refinement:
  assumes "hash obs \<noteq> pvo_obs_hash (st p)"
  shows "(\<forall>pvh1 st1 ldt pvh2 st2.
            planet_get_pvh X k st p obs = Inr (pvh1, st1) \<and>
            ldt = vec3_norm (fst (eraPvmpv (eraPvppv pvh1 (sun_pvb obs)) (obs_pvb obs)))
                    * DAU X / LIGHT_YEAR_IN_METER X * DJY X \<and>
            planet_get_pvh X k st1 p (obs\<lparr>tt := tt obs - ldt\<rparr>) = Inr (pvh2, st2) \<longrightarrow>
            planet_get_pvo X k st p obs True =
              Inr (eraPvmpv (eraPvppv pvh2 (sun_pvb obs)) (obs_pvb obs),
                   st2(p := (st2 p)\<lparr>pvo_obs_hash := hash obs,
                          pvo := eraPvmpv (eraPvppv pvh2 (sun_pvb obs)) (obs_pvb obs)\<rparr>))) \<and>
         (chain_ok st k p \<longrightarrow>
            (\<exists>pvh1 st1 pvh2 st2.
               planet_get_pvh X k st p obs = Inr (pvh1, st1) \<and>
               planet_get_pvh X k st1 p
                 (obs\<lparr>tt := tt obs - vec3_norm (fst (eraPvmpv (eraPvppv pvh1 (sun_pvb obs))
                           (obs_pvb obs))) * DAU X / LIGHT_YEAR_IN_METER X * DJY X\<rparr>)
                 = Inr (pvh2, st2)))"
proof (intro conjI allI impI)
  fix pvh1 st1 ldt pvh2 st2
  assume "planet_get_pvh X k st p obs = Inr (pvh1, st1) \<and>
            ldt = vec3_norm (fst (eraPvmpv (eraPvppv pvh1 (sun_pvb obs)) (obs_pvb obs)))
                    * DAU X / LIGHT_YEAR_IN_METER X * DJY X \<and>
            planet_get_pvh X k st1 p (obs\<lparr>tt := tt obs - ldt\<rparr>) = Inr (pvh2, st2)"
  then have a: "planet_get_pvh X k st p obs = Inr (pvh1, st1)"
    and b: "ldt = vec3_norm (fst (eraPvmpv (eraPvppv pvh1 (sun_pvb obs)) (obs_pvb obs)))
                    * DAU X / LIGHT_YEAR_IN_METER X * DJY X"
    and c: "planet_get_pvh X k st1 p (obs\<lparr>tt := tt obs - ldt\<rparr>) = Inr (pvh2, st2)"
    by blast+
  show "planet_get_pvo X k st p obs True =
              Inr (eraPvmpv (eraPvppv pvh2 (sun_pvb obs)) (obs_pvb obs),
                   st2(p := (st2 p)\<lparr>pvo_obs_hash := hash obs,
                          pvo := eraPvmpv (eraPvppv pvh2 (sun_pvb obs)) (obs_pvb obs)\<rparr>))"
    using assms a b c
    by (simp add: planet_get_pvo_def to_observer_def light_time_def cache_pvo_def Let_def)
next
  assume "chain_ok st k p"
  then show "\<exists>pvh1 st1 pvh2 st2.
               planet_get_pvh X k st p obs = Inr (pvh1, st1) \<and>
               planet_get_pvh X k st1 p
                 (obs\<lparr>tt := tt obs - vec3_norm (fst (eraPvmpv (eraPvppv pvh1 (sun_pvb obs))
                           (obs_pvb obs))) * DAU X / LIGHT_YEAR_IN_METER X * DJY X\<rparr>)
                 = Inr (pvh2, st2)"
    by (rule planet_get_pvh_twice_returns)
qed

theorem planet_get_pvo_single_refinement_witness:
  "hash sample_obs \<noteq> pvo_obs_hash (sample_store 3) \<and>
   chain_ok sample_store (Suc 0) 3 \<and>
   planet_get_pvo sample_ext (Suc 0) sample_store 3 sample_obs True =
     Inr (((3, 0, 0), (0, 0, 0)),
          cache_pvo
            (cache_full_pvh (cache_full_pvh sample_store 3 ((4, 0, 0), (0, 0, 0)) 58000)
               3 ((4, 0, 0), (0, 0, 0))
               (58000 - 3 * 149597870700 / 9460730472580800 * 365.25))
            3 1 ((3, 0, 0), (0, 0, 0)))"
proof -
  let ?st1 = "cache_full_pvh sample_store 3 ((4, 0, 0), (0, 0, 0)) 58000"
  let ?ldt = "3 * 149597870700 / 9460730472580800 * 365.25 :: real"
  let ?st2 = "cache_full_pvh ?st1 3 ((4, 0, 0), (0, 0, 0)) (58000 - ?ldt)"
  have h: "hash sample_obs \<noteq> pvo_obs_hash (sample_store 3)"
    by (simp add: sample_defs)
  have c: "chain_ok sample_store (Suc 0) 3"
    by (simp add: sample_defs)
  have l: "?ldt = vec3_norm (fst (eraPvmpv (eraPvppv ((4, 0, 0), (0, 0, 0)) (sun_pvb sample_obs))
                (obs_pvb sample_obs)))
              * DAU sample_ext / LIGHT_YEAR_IN_METER sample_ext * DJY sample_ext"
    by (simp add: sample_defs)
  have r: "planet_get_pvh sample_ext (Suc 0) ?st1 3 (sample_obs\<lparr>tt := tt sample_obs - ?ldt\<rparr>)
             = Inr (((4, 0, 0), (0, 0, 0)), ?st2)"
    by (simp add: sample_defs)
  note t = planet_get_pvo_single_refinement[where st = sample_store and p = 3
      and obs = sample_obs and k = "Suc 0" and X = sample_ext, OF h]
  from t[THEN conjunct2, rule_format, OF c]
       t[THEN conjunct1, rule_format, OF conjI[OF mars_miss conjI[OF l r]]]
  show ?thesis
    using h c
    by (simp add: cache_pvo_def sample_obs_def eraPvmpv_def eraPvppv_def del: chain_ok.simps)
qed

lemma cache_full_pvh_cache_pvo:
  "cache_full_pvh (cache_pvo st q h v) p x t = cache_pvo (cache_full_pvh st p x t) q h v"
  by (auto simp: cache_full_pvh_def cache_pvo_def fun_eq_iff)

lemma cache_pvo_fields:
  "planet_id (cache_pvo st q h v p) = planet_id (st p)"
  "parent (cache_pvo st q h v p) = parent (st p)"
  "radius_m (cache_pvo st q h v p) = radius_m (st p)"
  "orbit (cache_pvo st q h v p) = orbit (st p)"
  "update_delta_s (cache_pvo st q h v p) = update_delta_s (st p)"
  "last_full_update (cache_pvo st q h v p) = last_full_update (st p)"
  "last_full_pvh (cache_pvo st q h v p) = last_full_pvh (st p)"
  by (simp_all add: cache_pvo_def)

lemma cache_valid_cache_pvo:
  "cache_valid (cache_pvo st q h v p) obs = cache_valid (st p) obs"
  by (simp add: cache_valid_def cache_pvo_fields)

lemma planet_get_pvh_ignores_pvo:
  "planet_get_pvh X k (cache_pvo st q h v) p obs =
     (case planet_get_pvh X k st p obs of
        Inl e \<Rightarrow> Inl e
      | Inr (r, st') \<Rightarrow> Inr (r, cache_pvo st' q h v))"
proof (induction k arbitrary: st p)
  case 0
  then show ?case by simp
next
  case (Suc k)
  show ?case
    by (simp add: Let_def cache_pvo_fields cache_valid_cache_pvo cache_full_pvh_cache_pvo Suc.IH
          split: option.splits sum.splits prod.splits)
qed

text \<open>C9. A call of \<^verbatim>\<open>planet_get_pvo\<close> without light-time adjustment returns whenever the
  tree invariant holds; and when it returns, \<open>pvo_obs_hash\<close> and \<open>pvo\<close> of every body are as
  they were, and the value returned is the same when the observer-relative cache of any
  body is overwritten beforehand.\<close>

theorem planet_get_pvo_no_adjust_frame:
  "(chain_ok st k p \<longrightarrow> (\<exists>r st'. planet_get_pvo X k st p obs False = Inr (r, st'))) \<and>
   (\<forall>r st'. planet_get_pvo X k st p obs False = Inr (r, st') \<longrightarrow>
      (\<forall>q h v. pvo_obs_hash (st' q) = pvo_obs_hash (st q) \<and> pvo (st' q) = pvo (st q) \<and>
         planet_get_pvo X k (cache_pvo st q h v) p obs False = Inr (r, cache_pvo st' q h v)))"
proof (intro conjI allI impI)
  assume "chain_ok st k p"
  then show "\<exists>r st'. planet_get_pvo X k st p obs False = Inr (r, st')"
    by (rule planet_get_pvo_returns)
next
  fix r st' q h v
  assume a: "planet_get_pvo X k st p obs False = Inr (r, st')"
  then obtain pvh where
    1: "planet_get_pvh X k st p obs = Inr (pvh, st')" and 2: "r = to_observer obs pvh"
    by (auto simp: planet_get_pvo_def Let_def split: sum.splits)
  from planet_get_pvh_frame[OF 1, of q]
  show "pvo_obs_hash (st' q) = pvo_obs_hash (st q)" "pvo (st' q) = pvo (st q)"
    by simp_all
  show "planet_get_pvo X k (cache_pvo st q h v) p obs False = Inr (r, cache_pvo st' q h v)"
    using 1 2 by (simp add: planet_get_pvo_def planet_get_pvh_ignores_pvo)
qed

theorem planet_get_pvo_no_adjust_frame_witness:
  "chain_ok sample_store (Suc 0) 3 \<and>
   planet_get_pvo sample_ext (Suc 0) sample_store 3 sample_obs False =
     Inr (((3, 0, 0), (0, 0, 0)), cache_full_pvh sample_store 3 ((4, 0, 0), (0, 0, 0)) 58000) \<and>
   pvo_obs_hash (cache_full_pvh sample_store 3 ((4, 0, 0), (0, 0, 0)) 58000 3)
     = pvo_obs_hash (sample_store 3) \<and>
   pvo (cache_full_pvh sample_store 3 ((4, 0, 0), (0, 0, 0)) 58000 3) = pvo (sample_store 3) \<and>
   planet_get_pvo sample_ext (Suc 0) (cache_pvo sample_store 3 7 ((9, 9, 9), (9, 9, 9))) 3
       sample_obs False =
     Inr (((3, 0, 0), (0, 0, 0)),
          cache_pvo (cache_full_pvh sample_store 3 ((4, 0, 0), (0, 0, 0)) 58000)
            3 7 ((9, 9, 9), (9, 9, 9)))"
proof -
  have c: "chain_ok sample_store (Suc 0) 3"
    by (simp add: sample_defs)
  have r: "planet_get_pvo sample_ext (Suc 0) sample_store 3 sample_obs False =
     Inr (((3, 0, 0), (0, 0, 0)), cache_full_pvh sample_store 3 ((4, 0, 0), (0, 0, 0)) 58000)"
    by (simp add: planet_get_pvo_def mars_miss) (simp add: sample_defs)
  note t = planet_get_pvo_no_adjust_frame[of sample_store "Suc 0" 3 sample_ext sample_obs]
  from t[THEN conjunct1, rule_format, OF c]
       t[THEN conjunct2, rule_format, OF r, of 3 7 "((9, 9, 9), (9, 9, 9))"]
  show ?thesis
    using c r by simp
qed

section \<open>The eclipse factor\<close>

lemma half_sin_double_arccos:
  fixes y h c :: real
  assumes "1 - y\<^sup>2 = h / c\<^sup>2" and "0 \<le> h" and "0 < c"
  shows "sin (2 * arccos y) = 2 * y * sqrt h / c"
proof -
  have "0 \<le> 1 - y\<^sup>2" using assms by simp
  then have "y\<^sup>2 \<le> 1\<^sup>2" by simp
  then have y: "\<bar>y\<bar> \<le> 1" by (metis abs_1 abs_le_square_iff)
  have "sqrt (1 - y\<^sup>2) = sqrt h / c"
    using assms by (simp add: real_sqrt_divide)
  then show ?thesis
    using y by (simp add: sin_double sin_arccos_abs cos_arccos_abs)
qed

lemma shadow_factor_lens:
  assumes R: "0 < R" and r: "0 < r"
    and d1: "d < R + r" and d2: "r - R < d" and d3: "R - r < d"
  shows "shadow_factor R r d = 1 - circle_overlap_area R r d / (R\<^sup>2 * 3.14159266)"
proof -
  have d: "0 < d" using d2 d3 by linarith
  define x where "x = (R * R + d * d - r * r) / (2 * d)"
  define h2 where "h2 = (- d + r + R) * (d + r - R) * (d - r + R) * (d + r + R)"
  have h2pos: "0 \<le> h2"
    unfolding h2_def using R r d d1 d2 d3 by (intro mult_nonneg_nonneg) auto
  have xa: "x / R = (d\<^sup>2 + R\<^sup>2 - r\<^sup>2) / (2 * d * R)"
    using d R by (simp add: x_def field_simps power2_eq_square)
  have xb: "(d - x) / r = (d\<^sup>2 + r\<^sup>2 - R\<^sup>2) / (2 * d * r)"
    using d r by (simp add: x_def field_simps power2_eq_square)
  have ya: "1 - (x / R)\<^sup>2 = h2 / (2 * d * R)\<^sup>2"
    using d R unfolding xa h2_def by (simp add: field_simps power2_eq_square)
  have yb: "1 - ((d - x) / r)\<^sup>2 = h2 / (2 * d * r)\<^sup>2"
    using d r unfolding xb h2_def by (simp add: field_simps power2_eq_square)
  have sa: "sin (2 * arccos (x / R)) = 2 * (x / R) * sqrt h2 / (2 * d * R)"
    using half_sin_double_arccos[OF ya h2pos] d R by simp
  have sb: "sin (2 * arccos ((d - x) / r)) = 2 * ((d - x) / r) * sqrt h2 / (2 * d * r)"
    using half_sin_double_arccos[OF yb h2pos] d r by simp
  have "R * R * (0.5 * sin (2 * arccos (x / R))) + r * r * (0.5 * sin (2 * arccos ((d - x) / r)))
          = sqrt h2 / 2"
    unfolding sa sb using d R r by (simp add: field_simps)
  then have area: "R * R * (arccos (x / R) - 0.5 * sin (2 * arccos (x / R))) +
        r * r * (arccos ((d - x) / r) - 0.5 * sin (2 * arccos ((d - x) / r)))
          = circle_overlap_area R r d"
    unfolding circle_overlap_area_def h2_def[symmetric] xa[symmetric] xb[symmetric]
    by (simp add: algebra_simps power2_eq_square)
  have "shadow_factor R r d =
      1 - (R * R * (arccos (x / R) - 0.5 * sin (2 * arccos (x / R))) +
        r * r * (arccos ((d - x) / r) - 0.5 * sin (2 * arccos ((d - x) / r))))
       / (R * R * 2 * 1.57079633)"
    using d1 d2 d3 by (simp add: shadow_factor_def Let_def x_def)
  also have "\<dots> = 1 - circle_overlap_area R r d / (R\<^sup>2 * 3.14159266)"
    unfolding area by (simp add: power2_eq_square)
  finally show ?thesis .
qed

lemma sin_less_self:
  fixes x :: real
  assumes "0 < x"
  shows "sin x < x"
proof (cases "x \<le> 1")
  case False
  then have "1 < x" by simp
  moreover have "sin x \<le> 1" by simp
  ultimately show ?thesis by linarith
next
  case True
  have "(\<lambda>t. t - sin t) 0 < (\<lambda>t. t - sin t) x"
  proof (rule DERIV_pos_imp_increasing_open[OF assms])
    fix t :: real
    assume t: "0 < t" "t < x"
    then have "t \<le> pi" using True pi_ge_two by linarith
    then have "cos t < cos 0" using t by (intro cos_monotone_0_pi) auto
    moreover have "((\<lambda>t. t - sin t) has_real_derivative (1 - cos t)) (at t)"
      by (auto intro!: derivative_eq_intros)
    ultimately show "\<exists>y. ((\<lambda>t. t - sin t) has_real_derivative y) (at t) \<and> 0 < y"
      by (intro exI[of _ "1 - cos t"]) simp
  next
    show "continuous_on {0..x} (\<lambda>t. t - sin t)"
      by (intro continuous_intros)
  qed
  then show ?thesis by simp
qed

lemma lens_cos_bounds:
  fixes R r d :: real
  assumes "0 < r" "0 < d" "\<bar>R - r\<bar> \<le> d" "d \<le> R + r"
  shows "(d\<^sup>2 + r\<^sup>2 - R\<^sup>2) / (2 * d * r) \<in> {- 1..1}"
proof -
  have "0 \<le> (R - (d - r)) * (R + (d - r))"
    using assms by (intro mult_nonneg_nonneg) linarith+
  then have u: "d\<^sup>2 + r\<^sup>2 - R\<^sup>2 \<le> 2 * d * r"
    by (simp add: algebra_simps power2_eq_square)
  have "0 \<le> (d + r - R) * (d + r + R)"
    using assms by (intro mult_nonneg_nonneg) linarith+
  then have l: "- (2 * d * r) \<le> d\<^sup>2 + r\<^sup>2 - R\<^sup>2"
    by (simp add: algebra_simps power2_eq_square)
  have "0 < 2 * d * r" using assms by simp
  then show ?thesis
    using u l by (simp add: field_simps)
qed

lemma half_sin_double_less:
  fixes t :: real
  assumes "0 < t"
  shows "0 < t - 0.5 * sin (2 * t)"
  using sin_less_self[of "2 * t"] assms by simp

lemma arccos_interior:
  fixes y h c :: real
  assumes "1 - y\<^sup>2 = h / c\<^sup>2" and "0 < h" and "0 < c"
  shows "0 < arccos y"
proof -
  have "0 < 1 - y\<^sup>2" using assms by simp
  then have "y\<^sup>2 < 1\<^sup>2" by simp
  then have "\<bar>y\<bar> < 1" by (metis abs_1 abs_square_less_1 one_power2)
  then show ?thesis using arccos_lt_bounded[of y] by simp
qed

lemma circle_overlap_area_pos:
  assumes R: "0 < R" and r: "0 < r"
    and d1: "d < R + r" and d2: "r - R < d" and d3: "R - r < d"
  shows "0 < circle_overlap_area R r d"
proof -
  have d: "0 < d" using d2 d3 by linarith
  define h2 where "h2 = (- d + r + R) * (d + r - R) * (d - r + R) * (d + r + R)"
  have h2pos: "0 < h2"
    unfolding h2_def using R r d d1 d2 d3 by (intro mult_pos_pos) auto
  let ?ya = "(d\<^sup>2 + R\<^sup>2 - r\<^sup>2) / (2 * d * R)" and ?yb = "(d\<^sup>2 + r\<^sup>2 - R\<^sup>2) / (2 * d * r)"
  have ya: "1 - ?ya\<^sup>2 = h2 / (2 * d * R)\<^sup>2"
    using d R unfolding h2_def by (simp add: field_simps power2_eq_square)
  have yb: "1 - ?yb\<^sup>2 = h2 / (2 * d * r)\<^sup>2"
    using d r unfolding h2_def by (simp add: field_simps power2_eq_square)
  have a: "0 < arccos ?ya" using arccos_interior[OF ya h2pos] d R by simp
  have b: "0 < arccos ?yb" using arccos_interior[OF yb h2pos] d r by simp
  have sa: "sin (2 * arccos ?ya) = 2 * ?ya * sqrt h2 / (2 * d * R)"
    using half_sin_double_arccos[OF ya] h2pos d R by simp
  have sb: "sin (2 * arccos ?yb) = 2 * ?yb * sqrt h2 / (2 * d * r)"
    using half_sin_double_arccos[OF yb] h2pos d r by simp
  have "R\<^sup>2 * (0.5 * sin (2 * arccos ?ya)) + r\<^sup>2 * (0.5 * sin (2 * arccos ?yb)) = sqrt h2 / 2"
    unfolding sa sb using d R r by (simp add: field_simps power2_eq_square)
  then have "circle_overlap_area R r d =
      R\<^sup>2 * (arccos ?ya - 0.5 * sin (2 * arccos ?ya)) +
      r\<^sup>2 * (arccos ?yb - 0.5 * sin (2 * arccos ?yb))"
    unfolding circle_overlap_area_def h2_def[symmetric] by (simp add: algebra_simps)
  moreover have "0 < R\<^sup>2 * (arccos ?ya - 0.5 * sin (2 * arccos ?ya))"
    using half_sin_double_less[OF a] R by simp
  moreover have "0 < r\<^sup>2 * (arccos ?yb - 0.5 * sin (2 * arccos ?yb))"
    using half_sin_double_less[OF b] r by simp
  ultimately show ?thesis by linarith
qed

text \<open>C1. For positive radii and a separation that is not negative, the eclipse factor is
  1 when the separation is at least the sum of the radii, 0 when it is at most
  \<open>sph_r - sun_r\<close>, and \<open>1 - (sph_r / sun_r)\<^sup>2\<close> when it is at most \<open>sun_r - sph_r\<close>. Between the
  tangencies the code returns one minus the overlap area of the two disks divided by
  \<open>sun_r\<^sup>2 * 3.14159266\<close>, and this is never one minus the overlap area divided by the area
  \<open>pi * sun_r\<^sup>2\<close> of the source disk.\<close>

theorem shadow_factor_branches:
  assumes "0 < sun_r" and "0 < sph_r" and "0 \<le> sep"
  shows "(sep \<ge> sun_r + sph_r \<longrightarrow> shadow_factor sun_r sph_r sep = 1) \<and>
         (sep \<le> sph_r - sun_r \<longrightarrow> shadow_factor sun_r sph_r sep = 0) \<and>
         (sep \<le> sun_r - sph_r \<longrightarrow> shadow_factor sun_r sph_r sep = 1 - (sph_r / sun_r)\<^sup>2) \<and>
         (\<bar>sun_r - sph_r\<bar> < sep \<and> sep < sun_r + sph_r \<longrightarrow>
            shadow_factor sun_r sph_r sep
              = 1 - circle_overlap_area sun_r sph_r sep / (sun_r\<^sup>2 * 3.14159266) \<and>
            shadow_factor sun_r sph_r sep
              \<noteq> 1 - circle_overlap_area sun_r sph_r sep / disk_area sun_r)"
proof (intro conjI impI)
  assume "sep \<ge> sun_r + sph_r"
  then show "shadow_factor sun_r sph_r sep = 1"
    by (simp add: shadow_factor_def)
next
  assume "sep \<le> sph_r - sun_r"
  then show "shadow_factor sun_r sph_r sep = 0"
    using assms by (simp add: shadow_factor_def)
next
  assume a: "sep \<le> sun_r - sph_r"
  show "shadow_factor sun_r sph_r sep = 1 - (sph_r / sun_r)\<^sup>2"
  proof (cases "sep \<le> sph_r - sun_r")
    case True
    then have "sun_r = sph_r" using a assms by linarith
    then show ?thesis using True assms by (simp add: shadow_factor_def)
  next
    case False
    then show ?thesis
      using a assms by (simp add: shadow_factor_def power_divide power2_eq_square)
  qed
next
  assume a: "\<bar>sun_r - sph_r\<bar> < sep \<and> sep < sun_r + sph_r"
  then have d: "sep < sun_r + sph_r" "sph_r - sun_r < sep" "sun_r - sph_r < sep"
    by linarith+
  show v: "shadow_factor sun_r sph_r sep
      = 1 - circle_overlap_area sun_r sph_r sep / (sun_r\<^sup>2 * 3.14159266)"
    by (rule shadow_factor_lens[OF assms(1,2) d])
  have pos: "0 < circle_overlap_area sun_r sph_r sep"
    by (rule circle_overlap_area_pos[OF assms(1,2) d])
  have "circle_overlap_area sun_r sph_r sep / (sun_r\<^sup>2 * 3.14159266)
          \<noteq> circle_overlap_area sun_r sph_r sep / (pi * sun_r\<^sup>2)"
    using pos pi_upper_bound assms(1) by (simp add: field_simps)
  then show "shadow_factor sun_r sph_r sep
      \<noteq> 1 - circle_overlap_area sun_r sph_r sep / disk_area sun_r"
    unfolding v by (simp add: disk_area_def)
qed

theorem shadow_factor_branches_witness:
  "shadow_factor 1 1 2 = 1 \<and> shadow_factor 1 2 1 = 0 \<and>
   shadow_factor 2 1 1 = 1 - (1 / 2)\<^sup>2 \<and>
   shadow_factor 1 1 1 = 1 - circle_overlap_area 1 1 1 / (1\<^sup>2 * 3.14159266) \<and>
   shadow_factor 1 1 1 \<noteq> 1 - circle_overlap_area 1 1 1 / disk_area 1"
  using shadow_factor_branches[of 1 1 2] shadow_factor_branches[of 1 2 1]
    shadow_factor_branches[of 2 1 1] shadow_factor_branches[of 1 1 1]
  by simp

lemma circle_overlap_area_continuous:
  assumes R: "0 < R" and r: "0 < r" and ne: "R \<noteq> r"
  shows "continuous_on {\<bar>R - r\<bar>..R + r} (\<lambda>d. circle_overlap_area R r d)"
proof -
  let ?S = "{\<bar>R - r\<bar>..R + r}"
  have pos: "0 < d" if "d \<in> ?S" for d
    using that ne by auto
  have nz: "\<forall>d\<in>?S. d \<noteq> 0"
    using ne by auto
  have a: "continuous_on ?S (\<lambda>d. arccos ((d\<^sup>2 + r\<^sup>2 - R\<^sup>2) / (2 * d * r)))"
  proof (rule continuous_on_compose2[OF continuous_on_arccos'])
    show "continuous_on ?S (\<lambda>d. (d\<^sup>2 + r\<^sup>2 - R\<^sup>2) / (2 * d * r))"
      using nz r by (intro continuous_intros) auto
    show "(\<lambda>d. (d\<^sup>2 + r\<^sup>2 - R\<^sup>2) / (2 * d * r)) ` ?S \<subseteq> {- 1..1}"
    proof (intro image_subsetI)
      fix d assume d: "d \<in> ?S"
      show "(d\<^sup>2 + r\<^sup>2 - R\<^sup>2) / (2 * d * r) \<in> {- 1..1}"
        using d pos[OF d] by (intro lens_cos_bounds[OF r]) auto
    qed
  qed
  have b: "continuous_on ?S (\<lambda>d. arccos ((d\<^sup>2 + R\<^sup>2 - r\<^sup>2) / (2 * d * R)))"
  proof (rule continuous_on_compose2[OF continuous_on_arccos'])
    show "continuous_on ?S (\<lambda>d. (d\<^sup>2 + R\<^sup>2 - r\<^sup>2) / (2 * d * R))"
      using nz R by (intro continuous_intros) auto
    show "(\<lambda>d. (d\<^sup>2 + R\<^sup>2 - r\<^sup>2) / (2 * d * R)) ` ?S \<subseteq> {- 1..1}"
    proof (intro image_subsetI)
      fix d assume d: "d \<in> ?S"
      show "(d\<^sup>2 + R\<^sup>2 - r\<^sup>2) / (2 * d * R) \<in> {- 1..1}"
        using d pos[OF d] by (intro lens_cos_bounds[OF R]) auto
    qed
  qed
  show ?thesis
    unfolding circle_overlap_area_def
    by (intro continuous_on_diff continuous_on_add continuous_on_mult continuous_on_const a b)
       (intro continuous_intros, auto)
qed

lemma circle_overlap_area_tangent:
  assumes R: "0 < R" and r: "0 < r" and ne: "R \<noteq> r"
  shows "circle_overlap_area R r \<bar>R - r\<bar> = pi * (min R r)\<^sup>2"
proof (cases "r < R")
  case True
  have 1: "((R - r)\<^sup>2 + r\<^sup>2 - R\<^sup>2) / (2 * (R - r) * r) = - 1"
    using True r by (simp add: field_simps power2_eq_square)
  have 2: "((R - r)\<^sup>2 + R\<^sup>2 - r\<^sup>2) / (2 * (R - r) * R) = 1"
    using True R by (simp add: field_simps power2_eq_square)
  have e: "\<bar>R - r\<bar> = R - r" using True by simp
  show ?thesis
    unfolding circle_overlap_area_def e 1 2 using True by (simp add: min_def)
next
  case False
  then have lt: "R < r" using ne by simp
  have 1: "((r - R)\<^sup>2 + r\<^sup>2 - R\<^sup>2) / (2 * (r - R) * r) = 1"
    using lt r by (simp add: field_simps power2_eq_square)
  have 2: "((r - R)\<^sup>2 + R\<^sup>2 - r\<^sup>2) / (2 * (r - R) * R) = - 1"
    using lt R by (simp add: field_simps power2_eq_square)
  have e: "\<bar>R - r\<bar> = r - R" using lt by simp
  show ?thesis
    unfolding circle_overlap_area_def e 1 2 using lt by (simp add: min_def)
qed

text \<open>C2. For two positive radii that differ, the eclipse factor, as a function of the
  separation, is not continuous at the inner tangency \<open>sep = \<bar>sun_r - sph_r\<bar>\<close>: the value
  there is that of the closed-form branch, the limit from the right is one minus
  \<open>pi * (min sun_r sph_r)\<^sup>2 / (sun_r\<^sup>2 * 3.14159266)\<close>.\<close>

theorem shadow_factor_not_continuous:
  assumes R: "0 < sun_r" and r: "0 < sph_r" and ne: "sun_r \<noteq> sph_r"
  shows "\<not> isCont (\<lambda>sep. shadow_factor sun_r sph_r sep) \<bar>sun_r - sph_r\<bar>"
proof
  let ?a = "\<bar>sun_r - sph_r\<bar>" and ?b = "sun_r + sph_r"
  let ?f = "\<lambda>sep. shadow_factor sun_r sph_r sep"
  let ?g = "\<lambda>d. 1 - circle_overlap_area sun_r sph_r d / (sun_r\<^sup>2 * 3.14159266)"
  have ab: "?a < ?b" using R r by (simp add: abs_if)
  assume "isCont ?f ?a"
  then have "(?f \<longlongrightarrow> ?f ?a) (at ?a)"
    by (simp add: isCont_def)
  then have f: "(?f \<longlongrightarrow> ?f ?a) (at_right ?a)"
    by (rule filterlim_mono) (auto simp: at_le)
  have "continuous_on {?a..?b} ?g"
    using R by (intro continuous_intros circle_overlap_area_continuous[OF R r ne]) auto
  then have "(?g \<longlongrightarrow> ?g ?a) (at ?a within {?a..?b})"
    using ab by (auto simp: continuous_on_def)
  then have g: "(?g \<longlongrightarrow> ?g ?a) (at_right ?a)"
    using ab by (simp add: at_within_Icc_at_right)
  have ev: "eventually (\<lambda>d. ?g d = ?f d) (at_right ?a)"
  proof (rule eventually_at_rightI[of ?a ?b])
    fix d :: real assume "d \<in> {?a<..<?b}"
    then show "?g d = ?f d"
      using shadow_factor_lens[OF R r, of d] by auto
  qed (rule ab)
  have "(?f \<longlongrightarrow> ?g ?a) (at_right ?a)"
    using Lim_transform_eventually[OF g ev] .
  then have eq: "?f ?a = ?g ?a"
    by (intro tendsto_unique[OF _ f]) auto
  have ga: "?g ?a = 1 - pi * (min sun_r sph_r)\<^sup>2 / (sun_r\<^sup>2 * 3.14159266)"
    by (simp add: circle_overlap_area_tangent[OF R r ne])
  show False
  proof (cases "sph_r < sun_r")
    case True
    then have "?f ?a = 1 - sph_r * sph_r / (sun_r * sun_r)"
      using R r by (simp add: shadow_factor_def)
    then have "sph_r\<^sup>2 / sun_r\<^sup>2 = pi * sph_r\<^sup>2 / (sun_r\<^sup>2 * 3.14159266)"
      using eq True unfolding ga by (simp add: min_def power2_eq_square)
    then have "3.14159266 * sph_r\<^sup>2 = pi * sph_r\<^sup>2"
      using R by (simp add: field_simps)
    then have "pi = 3.14159266"
      using r by simp
    then show False using pi_upper_bound by simp
  next
    case False
    then have lt: "sun_r < sph_r" using ne by simp
    then have "?f ?a = 0"
      using R r by (simp add: shadow_factor_def)
    then have "pi * sun_r\<^sup>2 / (sun_r\<^sup>2 * 3.14159266) = 1"
      using eq lt unfolding ga by (simp add: min_def)
    then have "pi = 3.14159266"
      using R by (simp add: field_simps)
    then show False using pi_upper_bound by simp
  qed
qed

theorem shadow_factor_not_continuous_witness:
  "\<not> isCont (\<lambda>sep. shadow_factor 2 1 sep) 1 \<and> \<not> isCont (\<lambda>sep. shadow_factor 1 2 sep) 1"
  using shadow_factor_not_continuous[of 2 1] shadow_factor_not_continuous[of 1 2]
  by simp

section \<open>Shadow candidates\<close>





















section \<open>Magnitude of the Sun\<close>










section \<open>Phase\<close>

lemma planet_get_phase_returns:
  assumes "chain_ok st k p"
  shows "\<exists>v st'. planet_get_phase X k st p obs = Inr (v, st')"
proof -
  from planet_get_pvh_returns[OF assms] obtain pvh st1 where
    1: "planet_get_pvh X k st p obs = Inr (pvh, st1)" by blast
  have "chain_ok st1 k p"
    using chain_ok_same_bodies[OF planet_get_pvh_same_bodies[OF 1]] assms by simp
  from planet_get_pvo_returns[OF this] obtain pvo' st2 where
    2: "planet_get_pvo X k st1 p obs True = Inr (pvo', st2)" by blast
  show ?thesis using 1 2 by (simp add: planet_get_phase_def Let_def)
qed

lemma mars_phase:
  "planet_get_phase sample_ext (Suc 0) sample_store 3 sample_obs =
     Inr (Fin 1,
          cache_pvo
            (cache_full_pvh (cache_full_pvh sample_store 3 ((4, 0, 0), (0, 0, 0)) 58000)
               3 ((4, 0, 0), (0, 0, 0))
               (58000 - 3 * 149597870700 / 9460730472580800 * 365.25))
            3 1 ((3, 0, 0), (0, 0, 0)))"
  by (simp add: planet_get_phase_def planet_get_pvo_def sample_defs)

text \<open>C8, as amended. \<^verbatim>\<open>planet_get_phase\<close> returns the not-a-number value for the Earth and
  the Sun; for every other body it returns whenever the tree invariant holds, and the
  value returned is finite: \<open>0.5 * cos i + 0.5\<close>, where \<open>i\<close> is the separation between the
  heliocentric and the observer-relative position of the body (the phase angle).\<close>

theorem planet_get_phase_nan_or_fraction:
  "(planet_id (st p) = EARTH \<or> planet_id (st p) = SUN \<longrightarrow>
      planet_get_phase X k st p obs = Inr (NaN, st)) \<and>
   (planet_id (st p) \<noteq> EARTH \<and> planet_id (st p) \<noteq> SUN \<longrightarrow>
      (chain_ok st k p \<longrightarrow> (\<exists>v st'. planet_get_phase X k st p obs = Inr (v, st'))) \<and>
      (\<forall>v st'. planet_get_phase X k st p obs = Inr (v, st') \<longrightarrow>
         (\<exists>pvh st1 pvo'.
            planet_get_pvh X k st p obs = Inr (pvh, st1) \<and>
            planet_get_pvo X k st1 p obs True = Inr (pvo', st') \<and>
            v = Fin (0.5 * cos (eraSepp X (fst pvh) (fst pvo')) + 0.5))))"
  using planet_get_phase_returns[of st k p X obs]
  by (auto simp: planet_get_phase_def Let_def split: sum.splits)

theorem planet_get_phase_counterexample:
  "planet_id (sample_store 3) = MARS \<and>
   planet_get_pvh sample_ext (Suc 0) sample_store 3 sample_obs =
     Inr (((4, 0, 0), (0, 0, 0)), cache_full_pvh sample_store 3 ((4, 0, 0), (0, 0, 0)) 58000) \<and>
   planet_get_pvo sample_ext (Suc 0)
       (cache_full_pvh sample_store 3 ((4, 0, 0), (0, 0, 0)) 58000) 3 sample_obs True =
     Inr (((3, 0, 0), (0, 0, 0)),
          cache_pvo
            (cache_full_pvh (cache_full_pvh sample_store 3 ((4, 0, 0), (0, 0, 0)) 58000)
               3 ((4, 0, 0), (0, 0, 0))
               (58000 - 3 * 149597870700 / 9460730472580800 * 365.25))
            3 1 ((3, 0, 0), (0, 0, 0))) \<and>
   eraSepp sample_ext (4, 0, 0) (3, 0, 0) = 0 \<and>
   planet_get_phase sample_ext (Suc 0) sample_store 3 sample_obs =
     Inr (Fin 1,
          cache_pvo
            (cache_full_pvh (cache_full_pvh sample_store 3 ((4, 0, 0), (0, 0, 0)) 58000)
               3 ((4, 0, 0), (0, 0, 0))
               (58000 - 3 * 149597870700 / 9460730472580800 * 365.25))
            3 1 ((3, 0, 0), (0, 0, 0)))"
  by (simp add: planet_get_phase_def planet_get_pvo_def sample_defs)

theorem planet_get_phase_nan_or_fraction_witness:
  "planet_id (sample_store 9) = EARTH \<and>
   planet_get_phase sample_ext (Suc 0) sample_store 9 sample_obs = Inr (NaN, sample_store) \<and>
   planet_id (sample_store 0) = SUN \<and>
   planet_get_phase sample_ext (Suc 0) sample_store 0 sample_obs = Inr (NaN, sample_store) \<and>
   planet_id (sample_store 3) \<noteq> EARTH \<and> planet_id (sample_store 3) \<noteq> SUN \<and>
   chain_ok sample_store (Suc 0) 3 \<and>
   (\<exists>pvh st1 pvo' st'.
      planet_get_pvh sample_ext (Suc 0) sample_store 3 sample_obs = Inr (pvh, st1) \<and>
      planet_get_pvo sample_ext (Suc 0) st1 3 sample_obs True = Inr (pvo', st') \<and>
      planet_get_phase sample_ext (Suc 0) sample_store 3 sample_obs =
        Inr (Fin (0.5 * cos (eraSepp sample_ext (fst pvh) (fst pvo')) + 0.5), st'))"
proof -
  have e: "planet_id (sample_store 9) = EARTH" and s: "planet_id (sample_store 0) = SUN"
    and m: "planet_id (sample_store 3) \<noteq> EARTH \<and> planet_id (sample_store 3) \<noteq> SUN"
    and c: "chain_ok sample_store (Suc 0) 3"
    by (simp_all add: sample_defs)
  note t9 = planet_get_phase_nan_or_fraction[of sample_store 9 sample_ext "Suc 0" sample_obs]
  note t0 = planet_get_phase_nan_or_fraction[of sample_store 0 sample_ext "Suc 0" sample_obs]
  note t3 = planet_get_phase_nan_or_fraction[of sample_store 3 sample_ext "Suc 0" sample_obs]
  have n9: "planet_get_phase sample_ext (Suc 0) sample_store 9 sample_obs = Inr (NaN, sample_store)"
    using t9[THEN conjunct1] e by blast
  have n0: "planet_get_phase sample_ext (Suc 0) sample_store 0 sample_obs = Inr (NaN, sample_store)"
    using t0[THEN conjunct1] s by blast
  from t3[THEN conjunct2, rule_format, OF m, THEN conjunct1, rule_format, OF c]
  obtain v st' where r: "planet_get_phase sample_ext (Suc 0) sample_store 3 sample_obs = Inr (v, st')"
    by blast
  from t3[THEN conjunct2, rule_format, OF m, THEN conjunct2, rule_format, OF r]
  have "\<exists>pvh st1 pvo' st'.
      planet_get_pvh sample_ext (Suc 0) sample_store 3 sample_obs = Inr (pvh, st1) \<and>
      planet_get_pvo sample_ext (Suc 0) st1 3 sample_obs True = Inr (pvo', st') \<and>
      planet_get_phase sample_ext (Suc 0) sample_store 3 sample_obs =
        Inr (Fin (0.5 * cos (eraSepp sample_ext (fst pvh) (fst pvo')) + 0.5), st')"
    using r by blast
  then show ?thesis
    using e s m c n9 n0 by blast
qed

text \<open>C10. For a body other than the Earth and the Sun \<^verbatim>\<open>planet_get_phase\<close> returns
  whenever the tree invariant holds, and the value returned lies in [0, 1] and is
  \<open>0.5 * cos i + 0.5\<close> for the phase angle \<open>i\<close>.\<close>

theorem planet_get_phase_range:
  assumes "planet_id (st p) \<noteq> EARTH" and "planet_id (st p) \<noteq> SUN"
  shows "(chain_ok st k p \<longrightarrow> (\<exists>v st'. planet_get_phase X k st p obs = Inr (v, st'))) \<and>
         (\<forall>v st'. planet_get_phase X k st p obs = Inr (v, st') \<longrightarrow>
            (\<exists>x i pvh st1 pvo'.
               v = Fin x \<and> 0 \<le> x \<and> x \<le> 1 \<and> x = 0.5 * cos i + 0.5 \<and>
               planet_get_pvh X k st p obs = Inr (pvh, st1) \<and>
               planet_get_pvo X k st1 p obs True = Inr (pvo', st') \<and>
               i = eraSepp X (fst pvh) (fst pvo')))"
proof (intro conjI allI impI)
  assume "chain_ok st k p"
  then show "\<exists>v st'. planet_get_phase X k st p obs = Inr (v, st')"
    by (rule planet_get_phase_returns)
next
  fix v st'
  assume "planet_get_phase X k st p obs = Inr (v, st')"
  with assms obtain pvh st1 pvo' where
    1: "planet_get_pvh X k st p obs = Inr (pvh, st1)" and
    2: "planet_get_pvo X k st1 p obs True = Inr (pvo', st')" and
    3: "v = Fin (0.5 * cos (eraSepp X (fst pvh) (fst pvo')) + 0.5)"
    by (auto simp: planet_get_phase_def Let_def split: sum.splits)
  have "- 1 \<le> cos (eraSepp X (fst pvh) (fst pvo'))" "cos (eraSepp X (fst pvh) (fst pvo')) \<le> 1"
    by simp_all
  then have "0 \<le> 0.5 * cos (eraSepp X (fst pvh) (fst pvo')) + 0.5"
    "0.5 * cos (eraSepp X (fst pvh) (fst pvo')) + 0.5 \<le> 1"
    by linarith+
  then show "\<exists>x i pvh st1 pvo'.
               v = Fin x \<and> 0 \<le> x \<and> x \<le> 1 \<and> x = 0.5 * cos i + 0.5 \<and>
               planet_get_pvh X k st p obs = Inr (pvh, st1) \<and>
               planet_get_pvo X k st1 p obs True = Inr (pvo', st') \<and>
               i = eraSepp X (fst pvh) (fst pvo')"
    using 1 2 3 by blast
qed

theorem planet_get_phase_range_witness:
  "planet_id (sample_store 3) \<noteq> EARTH \<and> planet_id (sample_store 3) \<noteq> SUN \<and>
   chain_ok sample_store (Suc 0) 3 \<and>
   (\<exists>st'. planet_get_phase sample_ext (Suc 0) sample_store 3 sample_obs = Inr (Fin 1, st')) \<and>
   (\<exists>i. (1::real) = 0.5 * cos i + 0.5)"
proof -
  have m: "planet_id (sample_store 3) \<noteq> EARTH" "planet_id (sample_store 3) \<noteq> SUN"
    and c: "chain_ok sample_store (Suc 0) 3"
    by (simp_all add: sample_defs)
  note t = planet_get_phase_range[where st = sample_store and p = 3 and k = "Suc 0"
      and X = sample_ext and obs = sample_obs, OF m]
  from t[THEN conjunct1, rule_format, OF c] t[THEN conjunct2, rule_format, OF mars_phase]
  obtain x i where "Fin 1 = Fin x" "x = 0.5 * cos i + 0.5" by blast
  then have "\<exists>i. (1::real) = 0.5 * cos i + 0.5" by auto
  then show ?thesis using m c mars_phase by blast
qed

end
